theory Spec2Isabelle
  imports Main "HOL-Library.Sublist" "HOL-Library.AList"
begin

section \<open>Errors and Go runtime behaviour\<close>

text \<open>
  A Go panic and an error return are both values of \<open>error\<close>; a function that can panic
  or fail returns \<open>error + 'a\<close> with \<open>Inl\<close> for the failure.
  \<open>BackendError\<close> is whatever error the key-value client returns, \<open>UnknownLogLevel\<close>
  the error of the \<open>loglevel set\<close> command for a level it does not know.
\<close>

datatype error =
    PanicIndexOutOfRange
  | PanicNilDereference
  | PanicSendOnClosedChannel
  | BackendError
  | UnknownLogLevel

text \<open>Indexing \<open>xs[i]\<close> with a Go \<open>int\<close>: out of range is a runtime panic.\<close>

definition go_index :: "'a list \<Rightarrow> int \<Rightarrow> error + 'a" where
  "go_index xs i =
     (if 0 \<le> i \<and> i < int (length xs) then Inr (xs ! nat i) else Inl PanicIndexOutOfRange)"

subsection \<open>The functions of package \<open>strings\<close> that the source calls\<close>

text \<open>Go strings are byte sequences, as \<open>string\<close> is here.\<close>

definition TrimPrefix :: "string \<Rightarrow> string \<Rightarrow> string" where
  "TrimPrefix s p = (if prefix p s then drop (length p) s else s)"

definition Trim :: "string \<Rightarrow> string \<Rightarrow> string" where
  "Trim s cutset =
     rev (dropWhile (\<lambda>c. c \<in> set cutset) (rev (dropWhile (\<lambda>c. c \<in> set cutset) s)))"

text \<open>\<open>strings.Index\<close>: the position of the first occurrence of \<open>sep\<close>.\<close>

primrec Index :: "string \<Rightarrow> string \<Rightarrow> nat option" where
  "Index [] sep = (if sep = [] then Some 0 else None)"
| "Index (c # cs) sep =
     (if prefix sep (c # cs) then Some 0 else map_option Suc (Index cs sep))"

definition Contains :: "string \<Rightarrow> string \<Rightarrow> bool" where
  "Contains s substr = (Index s substr \<noteq> None)"

text \<open>
  \<open>strings.SplitN(s, sep, 2)\<close> and \<open>strings.SplitAfterN(s, sep, 2)\<close> for a non-empty
  separator (the source builds every separator as \<open>"/" + x + "/"\<close>): one piece when
  \<open>sep\<close> does not occur, otherwise the text before the first occurrence (with the
  separator kept, for \<open>SplitAfterN\<close>) and the text after it.
\<close>

definition SplitN2 :: "string \<Rightarrow> string \<Rightarrow> string list" where
  "SplitN2 s sep =
     (case Index s sep of
        None \<Rightarrow> [s]
      | Some i \<Rightarrow> [take i s, drop (i + length sep) s])"

definition SplitAfterN2 :: "string \<Rightarrow> string \<Rightarrow> string list" where
  "SplitAfterN2 s sep =
     (case Index s sep of
        None \<Rightarrow> [s]
      | Some i \<Rightarrow> [take (i + length sep) s, drop (i + length sep) s])"

text \<open>
  \<open>strings.Split(s, sep)\<close> and \<open>strings.ReplaceAll(s, old, new)\<close> for one-byte
  \<open>sep\<close>, \<open>old\<close> and \<open>new\<close>, which is how the source calls them (\<open>"#"\<close> and \<open>"/"\<close>).
  \<open>Split\<close> scans from the left: a separator starts a new piece, any other byte joins
  the first piece of the rest. It never returns the empty list, so the case of an empty
  rest is never taken.
\<close>

primrec Split :: "string \<Rightarrow> char \<Rightarrow> string list" where
  "Split [] sep = [[]]"
| "Split (c # cs) sep =
     (if c = sep then [] # Split cs sep
      else (case Split cs sep of
              [] \<Rightarrow> [[c]]
            | piece # pieces \<Rightarrow> (c # piece) # pieces))"

definition ReplaceAll :: "string \<Rightarrow> char \<Rightarrow> char \<Rightarrow> string" where
  "ReplaceAll s old new = map (\<lambda>c. if c = old then new else c) s"

subsection \<open>Go maps\<close>

text \<open>
  A \<open>map[string]string\<close> is an association list with distinct keys: \<open>m[k] = v\<close> is
  \<open>AList.update k v m\<close>, a lookup is \<open>map_of m k\<close>, and \<open>for k, v := range m\<close> visits
  the pairs in the order of the list. Go leaves that order unspecified, so a statement
  about a loop over a map is made for every order of the list.
\<close>

type_synonym gomap = "(string \<times> string) list"

section \<open>Package \<open>config\<close>\<close>

definition defaultkvStoreConfigPath :: string where
  "defaultkvStoreConfigPath = ''config''"

definition kvStoreDataPathPrefix :: string where
  "kvStoreDataPathPrefix = ''/service/voltha''"

definition kvStorePathSeparator :: string where
  "kvStorePathSeparator = ''/''"

subsection \<open>ConfigType\<close>

text \<open>\<open>type ConfigType int\<close> with two named values; any other \<open>int\<close> is a ConfigType too.\<close>

type_synonym ConfigType = int

definition ConfigTypeLogLevel :: ConfigType where
  "ConfigTypeLogLevel = 0"

definition ConfigTypeKafka :: ConfigType where
  "ConfigTypeKafka = 1"

definition ConfigType_String :: "ConfigType \<Rightarrow> error + string" where
  "ConfigType_String c = go_index [''loglevel'', ''kafka''] c"

subsection \<open>ChangeEventType and ConfigChangeEvent\<close>

type_synonym ChangeEventType = int

definition Put :: ChangeEventType where
  "Put = 0"

definition Delete :: ChangeEventType where
  "Delete = 1"

record ConfigChangeEvent =
  ChangeType :: ChangeEventType
  ConfigAttribute :: string

subsection \<open>The backend\<close>

text \<open>
  Package \<open>db\<close> and the \<open>kvstore\<close> client are not among the sources. \<open>Backend\<close> has
  the fields \<open>NewConfigManager\<close> sets, but for the client: the remote store the client
  talks to is a value of \<open>KVStore\<close> that every operation takes and returns.
\<close>

record Backend =
  StoreType :: string
  Host :: string
  Port :: int
  Timeout :: int
  PathPrefix :: string

text \<open>
  Modelled from the spec: the remote store. Keys are unique in the backend, and an
  operation fails with an error when the backend is unavailable: the contents are an
  association list with distinct keys, and \<open>Reachable\<close> says whether calls succeed.
\<close>

record KVStore =
  Reachable :: bool
  Data :: "(string \<times> string) list"

text \<open>
  Modelled from the spec: the full key of a key passed to the backend. Every stored key
  has the form \<open><backend-path-prefix>/<configPrefix>/...\<close>, and the handle passes
  \<open><configPrefix>/...\<close>; \<open>RetrieveAll\<close> strips the same \<open>PathPrefix + "/" + key\<close>.
\<close>

definition Backend_makePath :: "Backend \<Rightarrow> string \<Rightarrow> string" where
  "Backend_makePath b key = PathPrefix b @ ''/'' @ key"

text \<open>
  Modelled from the spec: \<open>put(key, value) -> ok | error\<close>; the value under the key is
  replaced, not merged.
\<close>

definition Backend_Put :: "Backend \<Rightarrow> string \<Rightarrow> string \<Rightarrow> KVStore \<Rightarrow> error + KVStore" where
  "Backend_Put b key val kv =
     (if Reachable kv
      then Inr (kv\<lparr>Data := AList.update (Backend_makePath b key) val (Data kv)\<rparr>)
      else Inl BackendError)"

text \<open>
  Modelled from the spec: \<open>delete(key) -> ok | error\<close>, idempotent on a missing key.
\<close>

definition Backend_Delete :: "Backend \<Rightarrow> string \<Rightarrow> KVStore \<Rightarrow> error + KVStore" where
  "Backend_Delete b key kv =
     (if Reachable kv
      then Inr (kv\<lparr>Data := AList.delete (Backend_makePath b key) (Data kv)\<rparr>)
      else Inl BackendError)"

text \<open>
  Modelled from the spec: \<open>listByPrefix(prefix) -> mapping[fullKey -> value] | error\<close>,
  every pair whose full key begins with the full key of the prefix. The result is a Go
  map; the list gives the order in which a loop over it visits the pairs.
\<close>

definition Backend_List :: "Backend \<Rightarrow> string \<Rightarrow> KVStore \<Rightarrow> error + (string \<times> string) list" where
  "Backend_List b key kv =
     (if Reachable kv
      then Inr (filter (\<lambda>p. prefix (Backend_makePath b key) (fst p)) (Data kv))
      else Inl BackendError)"

text \<open>
  Modelled from the spec: the event kinds of \<open>kvstore.Event\<close>, declared in the same
  absent package. The spec's watch stream carries \<open>{key: string, eventKind: enum{Put,
  Delete, ConnectionDown, Unknown}}\<close>.
\<close>

datatype EventKind = PUT | DELETE | CONNECTIONDOWN | UNKNOWN

text \<open>
  Modelled from the spec: the integer of an event kind, which the source converts to a
  \<open>ChangeEventType\<close>; the kinds are numbered in the order the spec lists them.
\<close>

primrec EventKind_ord :: "EventKind \<Rightarrow> int" where
  "EventKind_ord PUT = 0"
| "EventKind_ord DELETE = 1"
| "EventKind_ord CONNECTIONDOWN = 2"
| "EventKind_ord UNKNOWN = 3"

text \<open>The two fields of \<open>kvstore.Event\<close> that the source reads.\<close>

record Event =
  EventType :: EventKind
  Key :: string

subsection \<open>ConfigManager and ComponentConfig\<close>

record ConfigManager =
  backend :: Backend
  KvStoreConfigPrefix :: string

text \<open>
  The two channel fields of \<open>ComponentConfig\<close> are set only by \<open>MonitorForConfigChange\<close>
  and read only by the task it starts; they are the arguments and the result of
  \<open>processKVStoreWatchEvents\<close> below.
\<close>

record ComponentConfig =
  cManager :: ConfigManager
  componentLabel :: string
  configType :: ConfigType

definition NewConfigManager :: "string \<Rightarrow> string \<Rightarrow> int \<Rightarrow> int \<Rightarrow> ConfigManager" where
  "NewConfigManager kvStoreType kvStoreHost kvStorePort kvStoreTimeout =
     \<lparr>backend = \<lparr>StoreType = kvStoreType, Host = kvStoreHost, Port = kvStorePort,
                  Timeout = kvStoreTimeout, PathPrefix = kvStoreDataPathPrefix\<rparr>,
      KvStoreConfigPrefix = defaultkvStoreConfigPath\<rparr>"

definition InitComponentConfig :: "ConfigManager \<Rightarrow> string \<Rightarrow> ConfigType \<Rightarrow> ComponentConfig" where
  "InitComponentConfig cm label ctype =
     \<lparr>cManager = cm, componentLabel = label, configType = ctype\<rparr>"

definition makeConfigPath :: "ComponentConfig \<Rightarrow> error + string" where
  "makeConfigPath c =
     (case ConfigType_String (configType c) of
        Inl e \<Rightarrow> Inl e
      | Inr cType \<Rightarrow>
          Inr (KvStoreConfigPrefix (cManager c) @ kvStorePathSeparator @
               componentLabel c @ kvStorePathSeparator @ cType))"

subsection \<open>Save, Delete, RetrieveAll, RetrieveList\<close>

definition Save :: "ComponentConfig \<Rightarrow> string \<Rightarrow> string \<Rightarrow> KVStore \<Rightarrow> error + KVStore" where
  "Save c configKey configValue kv =
     (case makeConfigPath c of
        Inl e \<Rightarrow> Inl e
      | Inr p \<Rightarrow> Backend_Put (backend (cManager c)) (p @ ''/'' @ configKey) configValue kv)"

definition ComponentConfig_Delete :: "ComponentConfig \<Rightarrow> string \<Rightarrow> KVStore \<Rightarrow> error + KVStore" where
  "ComponentConfig_Delete c configKey kv =
     (case makeConfigPath c of
        Inl e \<Rightarrow> Inl e
      | Inr p \<Rightarrow> Backend_Delete (backend (cManager c)) (p @ ''/'' @ configKey) kv)"

text \<open>The body of the loop of \<open>RetrieveAll\<close>, and the loop over the listed pairs.\<close>

definition RetrieveAll_step :: "string \<Rightarrow> string \<times> string \<Rightarrow> gomap \<Rightarrow> gomap" where
  "RetrieveAll_step ccPathPrefix p res =
     AList.update (TrimPrefix (fst p) ccPathPrefix) (Trim (snd p) [CHR 0x22]) res"

definition RetrieveAll :: "ComponentConfig \<Rightarrow> KVStore \<Rightarrow> error + gomap" where
  "RetrieveAll c kv =
     (case makeConfigPath c of
        Inl e \<Rightarrow> Inl e
      | Inr key \<Rightarrow>
          (case Backend_List (backend (cManager c)) key kv of
             Inl err \<Rightarrow> Inl err
           | Inr data \<Rightarrow>
               Inr (fold (RetrieveAll_step
                            (PathPrefix (backend (cManager c)) @ kvStorePathSeparator @ key @
                             kvStorePathSeparator))
                      data [])))"

text \<open>The struct \<open>List\<close> of package \<open>config\<close>.\<close>

record List_entry =
  List_ComponentName :: string
  List_PackageName :: string
  List_Level :: string

text \<open>
  One round of the loop of \<open>RetrieveList\<close>. The index expressions \<open>cName[0]\<close>,
  \<open>cname[1]\<close> and \<open>pName[1]\<close> are unchecked in the source.
\<close>

definition RetrieveList_entry :: "string \<Rightarrow> string \<Rightarrow> string \<times> string \<Rightarrow> error + List_entry" where
  "RetrieveList_entry ccPathPrefix pathPrefix p =
     (case go_index (SplitN2 (fst p) ccPathPrefix) 0 of
        Inl e \<Rightarrow> Inl e
      | Inr cName0 \<Rightarrow>
     (case go_index (SplitN2 cName0 pathPrefix) 1 of
        Inl e \<Rightarrow> Inl e
      | Inr componentName \<Rightarrow>
     (case go_index (SplitAfterN2 (fst p) ccPathPrefix) 1 of
        Inl e \<Rightarrow> Inl e
      | Inr packageName \<Rightarrow>
          Inr \<lparr>List_ComponentName = componentName, List_PackageName = packageName,
               List_Level = Trim (snd p) [CHR 0x22]\<rparr>)))"

primrec RetrieveList_loop ::
  "string \<Rightarrow> string \<Rightarrow> (string \<times> string) list \<Rightarrow> List_entry list \<Rightarrow> error + List_entry list"
where
  "RetrieveList_loop ccPathPrefix pathPrefix [] list = Inr list"
| "RetrieveList_loop ccPathPrefix pathPrefix (p # data) list =
     (case RetrieveList_entry ccPathPrefix pathPrefix p of
        Inl e \<Rightarrow> Inl e
      | Inr l \<Rightarrow> RetrieveList_loop ccPathPrefix pathPrefix data (list @ [l]))"

definition RetrieveList :: "ComponentConfig \<Rightarrow> KVStore \<Rightarrow> error + List_entry list" where
  "RetrieveList c kv =
     (case Backend_List (backend (cManager c)) (KvStoreConfigPrefix (cManager c)) kv of
        Inl err \<Rightarrow> Inl err
      | Inr data \<Rightarrow>
          (case ConfigType_String (configType c) of
             Inl e \<Rightarrow> Inl e
           | Inr cType \<Rightarrow>
               RetrieveList_loop
                 (kvStorePathSeparator @ cType @ kvStorePathSeparator)
                 (kvStorePathSeparator @ KvStoreConfigPrefix (cManager c) @ kvStorePathSeparator)
                 data []))"

subsection \<open>Watching for changes\<close>

text \<open>
  A channel of the translation task, seen from outside: the values sent on it so far, in
  order, and whether \<open>close\<close> has been called on it. \<open>make\<close> returns an open channel
  with nothing sent; a send on a closed channel panics. The capacity of 1 makes the
  sender wait for the consumer; the model is of a consumer that keeps receiving.
\<close>

record 'a chan =
  chan_sent :: "'a list"
  chan_closed :: bool

definition make_chan :: "'a chan" where
  "make_chan = \<lparr>chan_sent = [], chan_closed = False\<rparr>"

definition chan_send :: "'a chan \<Rightarrow> 'a \<Rightarrow> error + 'a chan" where
  "chan_send ch x =
     (if chan_closed ch then Inl PanicSendOnClosedChannel
      else Inr (ch\<lparr>chan_sent := chan_sent ch @ [x]\<rparr>))"

text \<open>
  The loop \<open>for watchResp := range c.kvStoreEventChan\<close>: the list is what the raw channel
  delivers before it is closed, and the result is the outbound channel when the loop
  ends. The function returns right after the loop.
\<close>

primrec watch_loop ::
  "string \<Rightarrow> Event list \<Rightarrow> ConfigChangeEvent chan \<Rightarrow> error + ConfigChangeEvent chan"
where
  "watch_loop ccPathPrefix [] changeEventChan = Inr changeEventChan"
| "watch_loop ccPathPrefix (watchResp # rest) changeEventChan =
     (if EventType watchResp = CONNECTIONDOWN \<or> EventType watchResp = UNKNOWN
      then watch_loop ccPathPrefix rest changeEventChan
      else
        (case chan_send changeEventChan
                \<lparr>ChangeType = EventKind_ord (EventType watchResp),
                 ConfigAttribute = TrimPrefix (Key watchResp) ccPathPrefix\<rparr> of
           Inl e \<Rightarrow> Inl e
         | Inr ch \<Rightarrow> watch_loop ccPathPrefix rest ch))"

definition processKVStoreWatchEvents ::
  "ComponentConfig \<Rightarrow> Event list \<Rightarrow> ConfigChangeEvent chan \<Rightarrow> error + ConfigChangeEvent chan"
where
  "processKVStoreWatchEvents c kvStoreEventChan changeEventChan =
     (case makeConfigPath c of
        Inl e \<Rightarrow> Inl e
      | Inr ccKeyPrefix \<Rightarrow>
          watch_loop (PathPrefix (backend (cManager c)) @ ccKeyPrefix @ kvStorePathSeparator)
            kvStoreEventChan changeEventChan)"

text \<open>
  \<open>MonitorForConfigChange\<close> makes the outbound channel, takes the raw channel from the
  backend's watch on the handle's path (its events are the second argument) and starts
  the task; the value is the outbound channel once the raw channel has been closed and
  the task has returned.
\<close>

definition MonitorForConfigChange ::
  "ComponentConfig \<Rightarrow> Event list \<Rightarrow> error + ConfigChangeEvent chan"
where
  "MonitorForConfigChange c watched =
     (case makeConfigPath c of
        Inl e \<Rightarrow> Inl e
      | Inr key \<Rightarrow> processKVStoreWatchEvents c watched make_chan)"

section \<open>Package \<open>commands\<close>: the loglevel commands\<close>

definition defaultComponentName :: string where
  "defaultComponentName = ''global''"

definition defaultPackageName :: string where
  "defaultPackageName = ''default''"

text \<open>
  Modelled from the spec: the struct \<open>model.LogLevel\<close> and its \<open>PopulateFrom\<close> (package
  \<open>model\<close> is not among the sources), the spec's list entry \<open>{componentName,
  attributeName, value}\<close>; the source names the fields it sets.
\<close>

record LogLevel =
  ComponentName :: string
  PackageName :: string
  Level :: string

definition PopulateFrom :: "string \<Rightarrow> string \<Rightarrow> string \<Rightarrow> LogLevel" where
  "PopulateFrom componentName packageName level =
     \<lparr>ComponentName = componentName, PackageName = packageName, Level = level\<rparr>"

record LogLevelOutput =
  Output_ComponentName :: string
  Status :: string
  Error :: string

text \<open>
  \<open>log.StringToLogLevel\<close> belongs to a package that is not among the sources; the
  commands only test whether it returns an error, so they take that test as the
  parameter \<open>levelOk\<close>.
\<close>

definition listGlobalConfig :: "(string \<Rightarrow> bool) \<Rightarrow> ComponentConfig \<Rightarrow> KVStore \<Rightarrow> error + string" where
  "listGlobalConfig levelOk cConfig kv =
     (case RetrieveAll cConfig kv of
        Inl e \<Rightarrow> Inl e
      | Inr globalLogConfig \<Rightarrow>
          Inr (case map_of globalLogConfig defaultPackageName of
                 None \<Rightarrow> []
               | Some globalLevel \<Rightarrow> if levelOk globalLevel then globalLevel else []))"

definition listComponentNameConfig :: "ComponentConfig \<Rightarrow> string \<Rightarrow> KVStore \<Rightarrow> error + gomap" where
  "listComponentNameConfig cConfig globalLevel kv =
     (case RetrieveAll cConfig kv of
        Inl e \<Rightarrow> Inl e
      | Inr componentLogConfig \<Rightarrow>
          Inr (if globalLevel \<noteq> []
               then AList.update defaultPackageName globalLevel componentLogConfig
               else componentLogConfig))"

definition processCommandArgs :: "string \<Rightarrow> error + LogLevel" where
  "processCommandArgs component =
     (if Contains component ''#''
      then
        (case go_index (Split component (CHR ''#'')) 0 of
           Inl e \<Rightarrow> Inl e
         | Inr val0 \<Rightarrow>
        (case go_index (Split component (CHR ''#'')) 1 of
           Inl e \<Rightarrow> Inl e
         | Inr val1 \<Rightarrow>
             Inr \<lparr>ComponentName = val0,
                  PackageName = ReplaceAll val1 (CHR ''/'') (CHR ''#''),
                  Level = []\<rparr>))
      else Inr \<lparr>ComponentName = component, PackageName = defaultPackageName, Level = []\<rparr>)"

text \<open>
  \<open>createConfigManager\<close>: the manager of \<open>NewDefaultKVStore\<close>'s settings (the unnamed
  source part); connecting the client is the backend's business.
\<close>

definition createConfigManager :: ConfigManager where
  "createConfigManager = NewConfigManager ''etcd'' ''127.0.0.1'' 2379 1"

subsection \<open>\<open>loglevel set\<close>\<close>

primrec processAllCommandArgs :: "string list \<Rightarrow> error + LogLevel list" where
  "processAllCommandArgs [] = Inr []"
| "processAllCommandArgs (component # rest) =
     (case processCommandArgs component of
        Inl e \<Rightarrow> Inl e
      | Inr cNameConfig \<Rightarrow>
          (case processAllCommandArgs rest of
             Inl e \<Rightarrow> Inl e
           | Inr cs \<Rightarrow> Inr (cNameConfig # cs)))"

text \<open>
  The loop over \<open>componentNameConfig\<close>: a failed \<open>Save\<close> gives a failure row and the
  loop goes on with the next component.
\<close>

primrec SetLogLevel_loop ::
  "ConfigManager \<Rightarrow> string \<Rightarrow> LogLevel list \<Rightarrow> LogLevelOutput list \<Rightarrow> KVStore \<Rightarrow>
   LogLevelOutput list \<times> KVStore"
where
  "SetLogLevel_loop cm level [] output kv = (output, kv)"
| "SetLogLevel_loop cm level (cConfig # rest) output kv =
     (case Save (InitComponentConfig cm (ComponentName cConfig) ConfigTypeLogLevel)
             (PackageName cConfig) level kv of
        Inl e \<Rightarrow>
          SetLogLevel_loop cm level rest
            (output @ [\<lparr>Output_ComponentName = ComponentName cConfig,
                        Status = ''Failure'', Error = ''error''\<rparr>]) kv
      | Inr kv' \<Rightarrow>
          SetLogLevel_loop cm level rest
            (output @ [\<lparr>Output_ComponentName = ComponentName cConfig,
                        Status = ''Success'', Error = []\<rparr>]) kv')"

definition SetLogLevelOpts_Execute ::
  "(string \<Rightarrow> bool) \<Rightarrow> string \<Rightarrow> string list \<Rightarrow> KVStore \<Rightarrow>
   error + LogLevelOutput list \<times> KVStore"
where
  "SetLogLevelOpts_Execute levelOk level components kv =
     (if level \<noteq> [] \<and> \<not> levelOk level then Inl UnknownLogLevel
      else
        (case (if components = []
               then Inr [\<lparr>ComponentName = defaultComponentName,
                          PackageName = defaultPackageName, Level = []\<rparr>]
               else processAllCommandArgs components) of
           Inl e \<Rightarrow> Inl e
         | Inr componentNameConfig \<Rightarrow>
             Inr (SetLogLevel_loop createConfigManager level componentNameConfig [] kv)))"

subsection \<open>\<open>loglevel list\<close>\<close>

text \<open>
  The rows of one component: a pair whose level is unknown or whose package name is
  empty is skipped, every other one is reported with \<open>#\<close> replaced by \<open>/\<close> in the
  package name.
\<close>

definition ListLogLevels_rows :: "(string \<Rightarrow> bool) \<Rightarrow> string \<Rightarrow> gomap \<Rightarrow> LogLevel list" where
  "ListLogLevels_rows levelOk componentName componentLogConfig =
     map (\<lambda>p. PopulateFrom componentName (ReplaceAll (fst p) (CHR ''#'') (CHR ''/'')) (snd p))
       (filter (\<lambda>p. \<not> (\<not> levelOk (snd p) \<or> fst p = [])) componentLogConfig)"

primrec ListLogLevels_loop ::
  "(string \<Rightarrow> bool) \<Rightarrow> ConfigManager \<Rightarrow> string \<Rightarrow> string list \<Rightarrow> LogLevel list \<Rightarrow> KVStore \<Rightarrow>
   error + LogLevel list"
where
  "ListLogLevels_loop levelOk cm globalLevel [] data kv = Inr data"
| "ListLogLevels_loop levelOk cm globalLevel (componentName # rest) data kv =
     (case listComponentNameConfig
             (InitComponentConfig cm componentName ConfigTypeLogLevel) globalLevel kv of
        Inl e \<Rightarrow> Inl e
      | Inr componentLogConfig \<Rightarrow>
          ListLogLevels_loop levelOk cm globalLevel rest
            (data @ ListLogLevels_rows levelOk componentName componentLogConfig) kv)"

text \<open>
  \<open>ListLogLevelsOpts.Execute\<close> with a component argument: the list of components is the
  first argument alone. (Without arguments the list comes from
  \<open>RetrieveComponentList\<close>, which is not among the sources.) An error of
  \<open>listGlobalConfig\<close> is dropped and leaves the global level empty.
\<close>

definition ListLogLevelsOpts_Execute ::
  "(string \<Rightarrow> bool) \<Rightarrow> string \<Rightarrow> KVStore \<Rightarrow> error + LogLevel list"
where
  "ListLogLevelsOpts_Execute levelOk component kv =
     (let cm = createConfigManager;
          globalLevel =
            (case listGlobalConfig levelOk
                    (InitComponentConfig cm defaultComponentName ConfigTypeLogLevel) kv of
               Inl e \<Rightarrow> []
             | Inr l \<Rightarrow> l)
      in ListLogLevels_loop levelOk cm globalLevel [component] [] kv)"

subsection \<open>The controller variant of the commands\<close>

record componentLogController =
  componentNameConfig :: "ComponentConfig option"
  listConfig :: "ComponentConfig option"
  globalConfig :: "ComponentConfig option"
  configManager :: ConfigManager

definition NewComponentLogController :: "ConfigManager \<Rightarrow> componentLogController" where
  "NewComponentLogController cm =
     \<lparr>componentNameConfig = None, listConfig = None, globalConfig = None,
      configManager = cm\<rparr>"

definition createComponentConfig ::
  "ConfigManager \<Rightarrow> componentLogController \<Rightarrow> string \<Rightarrow> componentLogController"
where
  "createComponentConfig cm cc componentName =
     (if componentName = ''list''
      then cc\<lparr>listConfig := Some (InitComponentConfig cm componentName ConfigTypeLogLevel)\<rparr>
      else cc\<lparr>globalConfig := Some (InitComponentConfig cm ''global'' ConfigTypeLogLevel),
              componentNameConfig :=
                Some (InitComponentConfig cm componentName ConfigTypeLogLevel)\<rparr>)"

text \<open>A method called through a nil \<open>*ComponentConfig\<close> panics at its first field read.\<close>

definition componentLogController_listGlobalConfig ::
  "componentLogController \<Rightarrow> KVStore \<Rightarrow> error + string"
where
  "componentLogController_listGlobalConfig c kv =
     (case globalConfig c of
        None \<Rightarrow> Inl PanicNilDereference
      | Some g \<Rightarrow>
          (case RetrieveAll g kv of
             Inl e \<Rightarrow> Inl e
           | Inr globalLogConfig \<Rightarrow>
               Inr (fold (\<lambda>p globalDefaultLogLevel.
                            if fst p = ''default'' then snd p else globalDefaultLogLevel)
                      globalLogConfig [])))"

definition componentLogController_listComponentNameConfig ::
  "componentLogController \<Rightarrow> KVStore \<Rightarrow> error + gomap"
where
  "componentLogController_listComponentNameConfig c kv =
     (case componentLogController_listGlobalConfig c kv of
        Inl e \<Rightarrow> Inl e
      | Inr globalLevel \<Rightarrow>
          (case componentNameConfig c of
             None \<Rightarrow> Inl PanicNilDereference
           | Some cc \<Rightarrow>
               (case RetrieveAll cc kv of
                  Inl e \<Rightarrow> Inl e
                | Inr componentLogConfig \<Rightarrow>
                    Inr (if globalLevel \<noteq> []
                         then AList.update ''default'' globalLevel componentLogConfig
                         else componentLogConfig))))"

section \<open>Facts about the model\<close>

lemma ConfigType_String_named:
  "ConfigType_String ConfigTypeLogLevel = Inr ''loglevel''"
  "ConfigType_String ConfigTypeKafka = Inr ''kafka''"
  by (simp_all add: ConfigType_String_def go_index_def ConfigTypeLogLevel_def ConfigTypeKafka_def)

lemma go_index_out_of_range:
  "i < 0 \<or> int (length xs) \<le> i \<Longrightarrow> go_index xs i = Inl PanicIndexOutOfRange"
  by (auto simp: go_index_def)

lemma makeConfigPath_ok:
  "ConfigType_String (configType c) = Inr t \<Longrightarrow>
   makeConfigPath c = Inr (KvStoreConfigPrefix (cManager c) @ ''/'' @ componentLabel c @ ''/'' @ t)"
  by (simp add: makeConfigPath_def kvStorePathSeparator_def)

lemma Save_ok:
  assumes "ConfigType_String (configType c) = Inr t" and "Reachable kv"
  shows "Save c attr v kv =
     Inr (kv\<lparr>Data := AList.update
            (PathPrefix (backend (cManager c)) @ ''/'' @ KvStoreConfigPrefix (cManager c) @ ''/'' @
             componentLabel c @ ''/'' @ t @ ''/'' @ attr) v (Data kv)\<rparr>)"
  using assms by (simp add: Save_def makeConfigPath_ok Backend_Put_def Backend_makePath_def)

subsection \<open>The watch loop\<close>

lemma EventKind_invalid:
  "k \<noteq> PUT \<Longrightarrow> k \<noteq> DELETE \<Longrightarrow> k = CONNECTIONDOWN \<or> k = UNKNOWN"
  by (cases k) simp_all

lemma watch_loop_open:
  "\<not> chan_closed ch \<Longrightarrow>
   watch_loop pfx evs ch =
     Inr (ch\<lparr>chan_sent := chan_sent ch @
            map (\<lambda>e. \<lparr>ChangeType = EventKind_ord (EventType e),
                      ConfigAttribute = TrimPrefix (Key e) pfx\<rparr>)
              (filter (\<lambda>e. EventType e = PUT \<or> EventType e = DELETE) evs)\<rparr>)"
proof (induction evs arbitrary: ch)
  case Nil
  then show ?case by simp
next
  case (Cons e evs)
  show ?case
  proof (cases "EventType e")
    case PUT
    with Cons show ?thesis by (simp add: chan_send_def)
  next
    case DELETE
    with Cons show ?thesis by (simp add: chan_send_def)
  next
    case CONNECTIONDOWN
    with Cons show ?thesis by simp
  next
    case UNKNOWN
    with Cons show ?thesis by simp
  qed
qed

lemma watch_loop_skip:
  "EventType e = CONNECTIONDOWN \<or> EventType e = UNKNOWN \<Longrightarrow>
   watch_loop pfx (pre @ e # post) ch = watch_loop pfx (pre @ post) ch"
  by (induction pre arbitrary: ch) (simp_all split: sum.splits)

lemma processKVStoreWatchEvents_open:
  assumes "ConfigType_String (configType c) = Inr t" and "\<not> chan_closed ch"
  shows "processKVStoreWatchEvents c evs ch =
     Inr (ch\<lparr>chan_sent := chan_sent ch @
            map (\<lambda>e. \<lparr>ChangeType = EventKind_ord (EventType e),
                      ConfigAttribute =
                        TrimPrefix (Key e)
                          (PathPrefix (backend (cManager c)) @ KvStoreConfigPrefix (cManager c) @
                           ''/'' @ componentLabel c @ ''/'' @ t @ ''/'')\<rparr>)
              (filter (\<lambda>e. EventType e = PUT \<or> EventType e = DELETE) evs)\<rparr>)"
  using assms
  by (simp add: processKVStoreWatchEvents_def makeConfigPath_ok watch_loop_open
      kvStorePathSeparator_def)

text \<open>The handle of the examples: component \<open>rw-core\<close>, log levels, the default manager.\<close>

lemma rw_core_handle:
  "InitComponentConfig createConfigManager ''rw-core'' ConfigTypeLogLevel =
     \<lparr>cManager = \<lparr>backend = \<lparr>StoreType = ''etcd'', Host = ''127.0.0.1'', Port = 2379,
                                Timeout = 1, PathPrefix = ''/service/voltha''\<rparr>,
                   KvStoreConfigPrefix = ''config''\<rparr>,
      componentLabel = ''rw-core'', configType = 0\<rparr>"
  by (simp add: InitComponentConfig_def createConfigManager_def NewConfigManager_def
      kvStoreDataPathPrefix_def defaultkvStoreConfigPath_def ConfigTypeLogLevel_def)

lemma ConfigType_String_0: "ConfigType_String 0 = Inr ''loglevel''"
  using ConfigType_String_named(1) by (simp add: ConfigTypeLogLevel_def)

subsection \<open>The loop of RetrieveList\<close>

lemma RetrieveList_entry_no_segment:
  "Index (fst p) ccPathPrefix = None \<Longrightarrow>
   RetrieveList_entry ccPathPrefix pathPrefix p = Inl PanicIndexOutOfRange"
  by (simp add: RetrieveList_entry_def SplitN2_def SplitAfterN2_def go_index_def
      split: sum.splits option.splits)

lemma RetrieveList_entry_error:
  "RetrieveList_entry ccPathPrefix pathPrefix p = Inl e \<Longrightarrow> e = PanicIndexOutOfRange"
  by (auto simp: RetrieveList_entry_def go_index_def split: sum.splits if_splits)

lemma RetrieveList_loop_panics:
  "p \<in> set data \<Longrightarrow> RetrieveList_entry ccPathPrefix pathPrefix p = Inl PanicIndexOutOfRange \<Longrightarrow>
   RetrieveList_loop ccPathPrefix pathPrefix data list = Inl PanicIndexOutOfRange"
proof (induction data arbitrary: list)
  case Nil
  then show ?case by simp
next
  case (Cons q data)
  show ?case
  proof (cases "RetrieveList_entry ccPathPrefix pathPrefix q")
    case (Inl e)
    then show ?thesis by (simp add: RetrieveList_entry_error)
  next
    case (Inr l)
    with Cons have "p \<in> set data" by auto
    with Cons Inr show ?thesis by simp
  qed
qed

text \<open>
  Whenever the listing holds a key without the segment of the handle's config type, in
  whatever position, the call panics.
\<close>

lemma RetrieveList_no_segment_panics:
  assumes "Reachable kv" and "ConfigType_String (configType c) = Inr t"
    and "(k, v) \<in> set (Data kv)"
    and "prefix (PathPrefix (backend (cManager c)) @ ''/'' @ KvStoreConfigPrefix (cManager c)) k"
    and "Index k (''/'' @ t @ ''/'') = None"
  shows "RetrieveList c kv = Inl PanicIndexOutOfRange"
proof -
  let ?data = "filter (\<lambda>p. prefix (PathPrefix (backend (cManager c)) @ ''/'' @
    KvStoreConfigPrefix (cManager c)) (fst p)) (Data kv)"
  from assms(3,4) have "(k, v) \<in> set ?data"
    by simp
  moreover from assms(5) have "RetrieveList_entry (''/'' @ t @ ''/'')
      (''/'' @ KvStoreConfigPrefix (cManager c) @ ''/'') (k, v) = Inl PanicIndexOutOfRange"
    by (simp add: RetrieveList_entry_no_segment)
  ultimately have "RetrieveList_loop (''/'' @ t @ ''/'')
      (''/'' @ KvStoreConfigPrefix (cManager c) @ ''/'') ?data [] = Inl PanicIndexOutOfRange"
    by (rule RetrieveList_loop_panics)
  with assms(1,2) show ?thesis
    by (simp add: RetrieveList_def Backend_List_def Backend_makePath_def kvStorePathSeparator_def)
qed

subsection \<open>RetrieveAll after Save\<close>

lemma fold_RetrieveAll_step:
  "map_of (fold (RetrieveAll_step pfx) data acc) =
   fold (\<lambda>p m. m(TrimPrefix (fst p) pfx \<mapsto> Trim (snd p) [CHR 0x22])) data (map_of acc)"
  by (induction data arbitrary: acc) (simp_all add: RetrieveAll_step_def update_conv')

lemma fold_upd_other:
  "\<forall>p \<in> set data. f (fst p) \<noteq> a \<Longrightarrow>
   fold (\<lambda>p m. m(f (fst p) \<mapsto> g (snd p))) data m a = m a"
  by (induction data arbitrary: m) auto

lemma fold_upd_unique:
  "(k, v) \<in> set data \<Longrightarrow> \<forall>p \<in> set data. f (fst p) = f k \<longrightarrow> p = (k, v) \<Longrightarrow>
   fold (\<lambda>p m. m(f (fst p) \<mapsto> g (snd p))) data m (f k) = Some (g v)"
proof (induction data arbitrary: m)
  case Nil
  then show ?case by simp
next
  case (Cons q data)
  from Cons.prems(2) have rest: "\<forall>p \<in> set data. f (fst p) = f k \<longrightarrow> p = (k, v)"
    by simp
  show ?case
  proof (cases "(k, v) \<in> set data")
    case True
    from Cons.IH [OF True rest] show ?thesis
      by simp
  next
    case False
    with Cons.prems(1) have q: "q = (k, v)"
      by simp
    from rest False have "\<forall>p \<in> set data. f (fst p) \<noteq> f k"
      by blast
    then have "fold (\<lambda>p m. m(f (fst p) \<mapsto> g (snd p))) data (m(f k \<mapsto> g v)) (f k) =
        (m(f k \<mapsto> g v)) (f k)"
      by (rule fold_upd_other)
    then show ?thesis
      by (simp only: q fold_simps comp_apply fst_conv snd_conv fun_upd_same)
  qed
qed

lemma TrimPrefix_append: "TrimPrefix (p @ s) p = s"
  by (simp add: TrimPrefix_def)

lemma TrimPrefix_cases: "TrimPrefix s p = a \<Longrightarrow> s = p @ a \<or> s = a"
  by (auto simp: TrimPrefix_def prefix_def split: if_splits)

lemma Trim_no_quotes:
  "v = [] \<or> (hd v \<noteq> c \<and> last v \<noteq> c) \<Longrightarrow> Trim v [c] = v"
proof (cases "v = []")
  case True
  then show ?thesis by (simp add: Trim_def)
next
  case False
  assume "v = [] \<or> (hd v \<noteq> c \<and> last v \<noteq> c)"
  with False have h: "hd v \<noteq> c" and l: "last v \<noteq> c"
    by simp_all
  from h have 1: "dropWhile (\<lambda>x. x \<in> set [c]) v = v"
    by (simp add: dropWhile_eq_self_iff)
  from l False have 2: "dropWhile (\<lambda>x. x \<in> set [c]) (rev v) = rev v"
    by (simp add: dropWhile_eq_self_iff hd_rev)
  show ?thesis
    unfolding Trim_def 1 2 by simp
qed

lemma RetrieveAll_after_Save:
  assumes t: "ConfigType_String (configType c) = Inr t"
    and r: "Reachable kv"
    and d: "distinct (map fst (Data kv))"
    and n: "attr \<notin> fst ` set (Data kv)"
  shows "\<exists>kv' res. Save c attr v kv = Inr kv' \<and> Reachable kv' \<and>
           distinct (map fst (Data kv')) \<and>
           map_of (Data kv') =
             (map_of (Data kv))
               (PathPrefix (backend (cManager c)) @ ''/'' @ KvStoreConfigPrefix (cManager c) @
                ''/'' @ componentLabel c @ ''/'' @ t @ ''/'' @ attr \<mapsto> v) \<and>
           RetrieveAll c kv' = Inr res \<and>
           map_of res attr = Some (Trim v [CHR 0x22])"
proof -
  define L where "L = PathPrefix (backend (cManager c)) @ ''/'' @
    KvStoreConfigPrefix (cManager c) @ ''/'' @ componentLabel c @ ''/'' @ t"
  define K where "K = L @ ''/'' @ attr"
  define al where "al = AList.update K v (Data kv)"
  define data where "data = filter (\<lambda>p. prefix L (fst p)) al"
  have s: "Save c attr v kv = Inr (kv\<lparr>Data := al\<rparr>)"
    using Save_ok [OF t r, of attr v] by (simp add: al_def K_def L_def)
  have dal: "distinct (map fst al)"
    using d by (simp add: al_def distinct_update)
  have kin: "(K, v) \<in> set al"
    by (rule map_of_SomeD) (simp add: al_def update_conv')
  have "prefix L K"
    by (simp add: K_def)
  with kin have kdata: "(K, v) \<in> set data"
    by (simp add: data_def)
  have uniq: "\<forall>p \<in> set data. TrimPrefix (fst p) (L @ ''/'') = TrimPrefix K (L @ ''/'') \<longrightarrow> p = (K, v)"
  proof (intro ballI impI)
    fix p
    assume p: "p \<in> set data" and e: "TrimPrefix (fst p) (L @ ''/'') = TrimPrefix K (L @ ''/'')"
    have "TrimPrefix K (L @ ''/'') = attr"
      using TrimPrefix_append [of "L @ ''/''" attr] by (simp add: K_def)
    with e have "TrimPrefix (fst p) (L @ ''/'') = attr"
      by simp
    then have "fst p = (L @ ''/'') @ attr \<or> fst p = attr"
      by (rule TrimPrefix_cases)
    moreover from p have pal: "p \<in> set al"
      by (simp add: data_def)
    have "fst p \<noteq> attr"
    proof
      assume a: "fst p = attr"
      from pal have "fst p \<in> fst ` set al" by (rule imageI)
      then have "fst p = K \<or> fst p \<in> fst ` set (Data kv)"
        by (auto simp: al_def dom_update)
      with a n have "attr = K" by auto
      then show False by (simp add: K_def)
    qed
    ultimately have "fst p = K"
      by (simp add: K_def)
    then have "p = (K, snd p)"
      by (simp add: prod_eq_iff)
    with pal have "(K, snd p) \<in> set al"
      by simp
    with dal have "map_of al K = Some (snd p)"
      by simp
    moreover from dal kin have "map_of al K = Some v"
      by simp
    ultimately have "snd p = v"
      by simp
    with \<open>fst p = K\<close> show "p = (K, v)"
      by (simp add: prod_eq_iff)
  qed
  have ra: "RetrieveAll c (kv\<lparr>Data := al\<rparr>) = Inr (fold (RetrieveAll_step (L @ ''/'')) data [])"
    using t r
    by (simp add: RetrieveAll_def makeConfigPath_ok Backend_List_def Backend_makePath_def
        kvStorePathSeparator_def data_def L_def)
  have ka: "TrimPrefix K (L @ ''/'') = attr"
    using TrimPrefix_append [of "L @ ''/''" attr] by (simp add: K_def)
  have "fold (\<lambda>p m. m(TrimPrefix (fst p) (L @ ''/'') \<mapsto> Trim (snd p) [CHR 0x22])) data
          (map_of []) (TrimPrefix K (L @ ''/'')) = Some (Trim v [CHR 0x22])"
    using kdata uniq by (rule fold_upd_unique)
  then have look: "map_of (fold (RetrieveAll_step (L @ ''/'')) data []) attr = Some (Trim v [CHR 0x22])"
    by (simp only: fold_RetrieveAll_step ka)
  have mal: "map_of al = (map_of (Data kv))(K \<mapsto> v)"
    by (simp add: al_def update_conv')
  have "Save c attr v kv = Inr (kv\<lparr>Data := al\<rparr>) \<and> Reachable (kv\<lparr>Data := al\<rparr>) \<and>
        distinct (map fst (Data (kv\<lparr>Data := al\<rparr>))) \<and>
        map_of (Data (kv\<lparr>Data := al\<rparr>)) = (map_of (Data kv))(K \<mapsto> v) \<and>
        RetrieveAll c (kv\<lparr>Data := al\<rparr>) = Inr (fold (RetrieveAll_step (L @ ''/'')) data []) \<and>
        map_of (fold (RetrieveAll_step (L @ ''/'')) data []) attr = Some (Trim v [CHR 0x22])"
    using s r dal mal ra look by simp
  then have "\<exists>kv' res. Save c attr v kv = Inr kv' \<and> Reachable kv' \<and>
        distinct (map fst (Data kv')) \<and>
        map_of (Data kv') = (map_of (Data kv))(K \<mapsto> v) \<and>
        RetrieveAll c kv' = Inr res \<and> map_of res attr = Some (Trim v [CHR 0x22])"
    by blast
  then show ?thesis
    by (simp add: K_def L_def)
qed

subsection \<open>The loglevel commands\<close>

lemma Index_single_None: "Index s [c] = None \<longleftrightarrow> c \<notin> set s"
  by (induction s) auto

lemma Contains_single: "Contains s [c] \<longleftrightarrow> c \<in> set s"
  by (simp add: Contains_def Index_single_None)

lemma Split_no_sep: "sep \<notin> set s \<Longrightarrow> Split s sep = [s]"
  by (induction s) auto

lemma Split_at_first: "sep \<notin> set a \<Longrightarrow> Split (a @ sep # b) sep = a # Split b sep"
  by (induction a) auto

lemma processCommandArgs_escaped:
  assumes "CHR ''#'' \<notin> set cname" and "CHR ''#'' \<notin> set pkg"
  shows "processCommandArgs (cname @ ''#'' @ pkg) =
     Inr \<lparr>ComponentName = cname, PackageName = ReplaceAll pkg (CHR ''/'') (CHR ''#''), Level = []\<rparr>"
proof -
  have "Split (cname @ ''#'' @ pkg) (CHR ''#'') = [cname, pkg]"
    using assms by (simp add: Split_at_first Split_no_sep)
  moreover have "Contains (cname @ ''#'' @ pkg) ''#''"
    by (simp add: Contains_single)
  ultimately show ?thesis
    by (simp add: processCommandArgs_def go_index_def)
qed

lemma ReplaceAll_decode_encode:
  "CHR ''#'' \<notin> set pkg \<Longrightarrow>
   ReplaceAll (ReplaceAll pkg (CHR ''/'') (CHR ''#'')) (CHR ''#'') (CHR ''/'') = pkg"
  by (induction pkg) (auto simp: ReplaceAll_def)

lemma ReplaceAll_has_new:
  "old \<in> set s \<Longrightarrow> new \<in> set (ReplaceAll s old new)"
  by (auto simp: ReplaceAll_def)

lemma ListLogLevels_rows_member:
  "(a, l) \<in> set m \<Longrightarrow> levelOk l \<Longrightarrow> a \<noteq> [] \<Longrightarrow>
   \<lparr>ComponentName = cname, PackageName = ReplaceAll a (CHR ''#'') (CHR ''/''), Level = l\<rparr>
     \<in> set (ListLogLevels_rows levelOk cname m)"
  by (force simp: ListLogLevels_rows_def PopulateFrom_def)

lemma createConfigManager_fields:
  "PathPrefix (backend createConfigManager) = ''/service/voltha''"
  "KvStoreConfigPrefix createConfigManager = ''config''"
  by (simp_all add: createConfigManager_def NewConfigManager_def kvStoreDataPathPrefix_def
      defaultkvStoreConfigPath_def)

lemma LogLevel_handle:
  "ConfigType_String (configType (InitComponentConfig cm label ConfigTypeLogLevel)) = Inr ''loglevel''"
  "cManager (InitComponentConfig cm label ctype) = cm"
  "componentLabel (InitComponentConfig cm label ctype) = label"
  by (simp_all add: InitComponentConfig_def ConfigType_String_named)

lemma RetrieveAll_reachable:
  assumes "ConfigType_String (configType c) = Inr t" and "Reachable kv"
  shows "\<exists>res. RetrieveAll c kv = Inr res"
  using assms by (simp add: RetrieveAll_def makeConfigPath_ok Backend_List_def)

text \<open>
  Only the text between the first and the second \<open>#\<close> of an argument becomes the package
  name; anything after a second \<open>#\<close> is dropped.
\<close>

lemma processCommandArgs_second_hash:
  "processCommandArgs ''rw-core#pkgA#pkgB'' =
     Inr \<lparr>ComponentName = ''rw-core'', PackageName = ''pkgA'', Level = []\<rparr>"
  by (simp add: processCommandArgs_def Contains_def go_index_def ReplaceAll_def)

section \<open>The claims\<close>

text \<open>
  C1. On a reachable store, \<open>Save attributeName value\<close> through the handle of any
  component label and of config type \<open>ConfigTypeLogLevel\<close> or \<open>ConfigTypeKafka\<close> succeeds
  and changes the store at exactly one key,
  \<open><backend path prefix>/<configPrefix>/<componentLabel>/<configTypeString>/<attributeName>\<close>,
  with \<open>loglevel\<close> and \<open>kafka\<close> as the config type strings; a manager made by
  \<open>NewConfigManager\<close> has the config prefix \<open>config\<close> and the backend path prefix
  \<open>/service/voltha\<close>.
\<close>

theorem C1_Save_writes_key:
  assumes "Reachable kv"
  shows "(\<exists>kv'. Save (InitComponentConfig cm label ConfigTypeLogLevel) attr v kv = Inr kv' \<and>
            Reachable kv' \<and>
            map_of (Data kv') =
              (map_of (Data kv))
                (PathPrefix (backend cm) @ ''/'' @ KvStoreConfigPrefix cm @ ''/'' @ label @
                 ''/'' @ ''loglevel'' @ ''/'' @ attr \<mapsto> v)) \<and>
         (\<exists>kv'. Save (InitComponentConfig cm label ConfigTypeKafka) attr v kv = Inr kv' \<and>
            Reachable kv' \<and>
            map_of (Data kv') =
              (map_of (Data kv))
                (PathPrefix (backend cm) @ ''/'' @ KvStoreConfigPrefix cm @ ''/'' @ label @
                 ''/'' @ ''kafka'' @ ''/'' @ attr \<mapsto> v)) \<and>
         KvStoreConfigPrefix (NewConfigManager storeType host port timeout) = ''config'' \<and>
         PathPrefix (backend (NewConfigManager storeType host port timeout)) = ''/service/voltha''"
proof (intro conjI)
  let ?l = "InitComponentConfig cm label ConfigTypeLogLevel"
  have "ConfigType_String (configType ?l) = Inr ''loglevel''"
    by (simp add: InitComponentConfig_def ConfigType_String_named)
  from Save_ok [OF this assms, of attr v]
  show "\<exists>kv'. Save ?l attr v kv = Inr kv' \<and> Reachable kv' \<and>
          map_of (Data kv') =
            (map_of (Data kv))
              (PathPrefix (backend cm) @ ''/'' @ KvStoreConfigPrefix cm @ ''/'' @ label @
               ''/'' @ ''loglevel'' @ ''/'' @ attr \<mapsto> v)"
    using assms by (simp add: InitComponentConfig_def update_conv')
next
  let ?k = "InitComponentConfig cm label ConfigTypeKafka"
  have "ConfigType_String (configType ?k) = Inr ''kafka''"
    by (simp add: InitComponentConfig_def ConfigType_String_named)
  from Save_ok [OF this assms, of attr v]
  show "\<exists>kv'. Save ?k attr v kv = Inr kv' \<and> Reachable kv' \<and>
          map_of (Data kv') =
            (map_of (Data kv))
              (PathPrefix (backend cm) @ ''/'' @ KvStoreConfigPrefix cm @ ''/'' @ label @
               ''/'' @ ''kafka'' @ ''/'' @ attr \<mapsto> v)"
    using assms by (simp add: InitComponentConfig_def update_conv')
next
  show "KvStoreConfigPrefix (NewConfigManager storeType host port timeout) = ''config''"
    by (simp add: NewConfigManager_def defaultkvStoreConfigPath_def)
next
  show "PathPrefix (backend (NewConfigManager storeType host port timeout)) = ''/service/voltha''"
    by (simp add: NewConfigManager_def kvStoreDataPathPrefix_def)
qed

theorem C1_Save_writes_key_witness:
  "\<exists>kv'. Save (InitComponentConfig (NewConfigManager ''etcd'' ''127.0.0.1'' 2379 5)
                 ''rw-core'' ConfigTypeLogLevel)
            ''default'' ''DEBUG'' \<lparr>Reachable = True, Data = []\<rparr> = Inr kv' \<and>
         map_of (Data kv') ''/service/voltha/config/rw-core/loglevel/default'' = Some ''DEBUG''"
proof -
  have r: "Reachable \<lparr>Reachable = True, Data = []\<rparr>"
    by simp
  from C1_Save_writes_key [OF r, of "NewConfigManager ''etcd'' ''127.0.0.1'' 2379 5"
      "''rw-core''" "''default''" "''DEBUG''"]
  obtain kv' where
    s: "Save (InitComponentConfig (NewConfigManager ''etcd'' ''127.0.0.1'' 2379 5)
          ''rw-core'' ConfigTypeLogLevel) ''default'' ''DEBUG'' \<lparr>Reachable = True, Data = []\<rparr> =
        Inr kv'"
    and m: "map_of (Data kv') =
        (map_of (Data \<lparr>Reachable = True, Data = []\<rparr>))
          (PathPrefix (backend (NewConfigManager ''etcd'' ''127.0.0.1'' 2379 5)) @ ''/'' @
           KvStoreConfigPrefix (NewConfigManager ''etcd'' ''127.0.0.1'' 2379 5) @ ''/'' @
           ''rw-core'' @ ''/'' @ ''loglevel'' @ ''/'' @ ''default'' \<mapsto> ''DEBUG'')"
    by blast
  have "map_of (Data kv') ''/service/voltha/config/rw-core/loglevel/default'' = Some ''DEBUG''"
    unfolding m
    by (simp add: NewConfigManager_def kvStoreDataPathPrefix_def defaultkvStoreConfigPath_def)
  with s show ?thesis by blast
qed

text \<open>
  C2 (amended). When one component's config is listed and the global default log level
  is not empty, the global level is stored under the default attribute of the
  component's map without looking at what is there: the returned map is the component's
  map with \<open>default\<close> set to the global level, so a value the component has stored under
  \<open>default\<close> itself is replaced, not kept. Only with an empty global level is the
  component's map returned as it is. Both variants of \<open>listComponentNameConfig\<close> do this.
\<close>

theorem C2_global_default_replaces_component_default:
  assumes "RetrieveAll cConfig kv = Inr componentLogConfig" and "globalLevel \<noteq> []"
  shows "(\<exists>res. listComponentNameConfig cConfig globalLevel kv = Inr res \<and>
            map_of res = (map_of componentLogConfig)(defaultPackageName \<mapsto> globalLevel)) \<and>
         listComponentNameConfig cConfig [] kv = Inr componentLogConfig \<and>
         (componentNameConfig c = Some cConfig \<and>
          componentLogController_listGlobalConfig c kv = Inr globalLevel \<longrightarrow>
            (\<exists>res. componentLogController_listComponentNameConfig c kv = Inr res \<and>
               map_of res = (map_of componentLogConfig)(''default'' \<mapsto> globalLevel)))"
  using assms
  by (simp add: listComponentNameConfig_def componentLogController_listComponentNameConfig_def
      update_conv')

theorem C2_global_default_replaces_component_default_witness:
  "\<exists>res. listComponentNameConfig
            (InitComponentConfig createConfigManager ''rw-core'' ConfigTypeLogLevel) ''INFO''
            \<lparr>Reachable = True,
             Data = [(''/service/voltha/config/rw-core/loglevel/default'', ''DEBUG''),
                     (''/service/voltha/config/rw-core/loglevel/pkgA'', ''WARN'')]\<rparr> = Inr res \<and>
         map_of res ''default'' = Some ''INFO'' \<and> map_of res ''pkgA'' = Some ''WARN''"
proof -
  have r: "RetrieveAll (InitComponentConfig createConfigManager ''rw-core'' ConfigTypeLogLevel)
             \<lparr>Reachable = True,
              Data = [(''/service/voltha/config/rw-core/loglevel/default'', ''DEBUG''),
                      (''/service/voltha/config/rw-core/loglevel/pkgA'', ''WARN'')]\<rparr> =
           Inr [(''default'', ''DEBUG''), (''pkgA'', ''WARN'')]"
    by (simp add: rw_core_handle RetrieveAll_def makeConfigPath_def Backend_List_def
        Backend_makePath_def ConfigType_String_0 kvStorePathSeparator_def RetrieveAll_step_def
        TrimPrefix_def Trim_def)
  have g: "''INFO'' \<noteq> []"
    by simp
  from C2_global_default_replaces_component_default [OF r g, THEN conjunct1]
  obtain res where
    l: "listComponentNameConfig
          (InitComponentConfig createConfigManager ''rw-core'' ConfigTypeLogLevel) ''INFO''
          \<lparr>Reachable = True,
           Data = [(''/service/voltha/config/rw-core/loglevel/default'', ''DEBUG''),
                   (''/service/voltha/config/rw-core/loglevel/pkgA'', ''WARN'')]\<rparr> = Inr res"
    and m: "map_of res =
          (map_of [(''default'', ''DEBUG''), (''pkgA'', ''WARN'')])(defaultPackageName \<mapsto> ''INFO'')"
    by blast
  have "map_of res ''default'' = Some ''INFO''" and "map_of res ''pkgA'' = Some ''WARN''"
    unfolding m by (simp_all add: defaultPackageName_def)
  with l show ?thesis by blast
qed

text \<open>
  The claim as stated fails in its own scenario: the global default is \<open>INFO\<close>, the
  component \<open>rw-core\<close> has \<open>DEBUG\<close> stored under its own \<open>default\<close>, and both variants
  return \<open>INFO\<close> for \<open>default\<close>.
\<close>

theorem C2_component_default_shadows_counterexample:
  "listComponentNameConfig
     (InitComponentConfig createConfigManager ''rw-core'' ConfigTypeLogLevel) ''INFO''
     \<lparr>Reachable = True,
      Data = [(''/service/voltha/config/global/loglevel/default'', ''INFO''),
              (''/service/voltha/config/rw-core/loglevel/default'', ''DEBUG'')]\<rparr> =
     Inr [(''default'', ''INFO'')] \<and>
   componentLogController_listComponentNameConfig
     (createComponentConfig createConfigManager (NewComponentLogController createConfigManager)
        ''rw-core'')
     \<lparr>Reachable = True,
      Data = [(''/service/voltha/config/global/loglevel/default'', ''INFO''),
              (''/service/voltha/config/rw-core/loglevel/default'', ''DEBUG'')]\<rparr> =
     Inr [(''default'', ''INFO'')]"
  by (simp add: listComponentNameConfig_def componentLogController_listComponentNameConfig_def
      componentLogController_listGlobalConfig_def createComponentConfig_def
      NewComponentLogController_def InitComponentConfig_def createConfigManager_def
      NewConfigManager_def kvStoreDataPathPrefix_def defaultkvStoreConfigPath_def
      ConfigTypeLogLevel_def RetrieveAll_def makeConfigPath_def Backend_List_def
      Backend_makePath_def ConfigType_String_0 kvStorePathSeparator_def RetrieveAll_step_def
      TrimPrefix_def Trim_def defaultPackageName_def)

text \<open>
  C3. For a forwarded event the attribute should be the raw key without the handle's
  base path and one separator, \<open><backend path prefix>/<configPrefix>/<componentLabel>/
  <configTypeString>/\<close>. The task strips \<open>PathPrefix + makeConfigPath() + "/"\<close>, with no
  separator after the backend's path prefix, so a key of the handle's own subtree does
  not begin with the stripped prefix and is forwarded whole: the \<open>Put\<close> of
  \<open>/service/voltha/config/rw-core/loglevel/default\<close> reaches the consumer with that key
  as its attribute, not with \<open>default\<close>.
\<close>

theorem C3_watch_attribute_not_stripped:
  "MonitorForConfigChange (InitComponentConfig createConfigManager ''rw-core'' ConfigTypeLogLevel)
     [\<lparr>EventType = PUT, Key = ''/service/voltha/config/rw-core/loglevel/default''\<rparr>] =
   Inr \<lparr>chan_sent = [\<lparr>ChangeType = Put,
                        ConfigAttribute = ''/service/voltha/config/rw-core/loglevel/default''\<rparr>],
        chan_closed = False\<rparr>"
  by (simp add: rw_core_handle MonitorForConfigChange_def processKVStoreWatchEvents_def
      makeConfigPath_def ConfigType_String_0 kvStorePathSeparator_def
      make_chan_def chan_send_def TrimPrefix_def Put_def)

text \<open>
  C4 (amended). When the raw channel closes, the translation task has forwarded the
  \<open>Put\<close> and \<open>Delete\<close> events it received and returns; it never closes the outbound
  channel, which \<open>MonitorForConfigChange\<close> made open and which is still open after the
  task has returned, whatever the events were. (Stated for the two named config types,
  for which the path of the handle exists.)
\<close>

theorem C4_outbound_channel_left_open:
  assumes "ConfigType_String (configType c) = Inr t"
  shows "\<exists>ch. MonitorForConfigChange c watched = Inr ch \<and> \<not> chan_closed ch \<and>
           length (chan_sent ch) =
             length (filter (\<lambda>e. EventType e = PUT \<or> EventType e = DELETE) watched)"
proof -
  have "\<not> chan_closed (make_chan :: ConfigChangeEvent chan)"
    by (simp add: make_chan_def)
  from processKVStoreWatchEvents_open [OF assms this, of watched]
  show ?thesis
    using assms by (simp add: MonitorForConfigChange_def makeConfigPath_ok make_chan_def)
qed

theorem C4_outbound_channel_left_open_witness:
  "\<exists>ch. MonitorForConfigChange
           (InitComponentConfig createConfigManager ''rw-core'' ConfigTypeLogLevel)
           [\<lparr>EventType = DELETE, Key = ''k''\<rparr>] = Inr ch \<and>
        \<not> chan_closed ch \<and> length (chan_sent ch) = 1"
proof -
  have "ConfigType_String
          (configType (InitComponentConfig createConfigManager ''rw-core'' ConfigTypeLogLevel)) =
        Inr ''loglevel''"
    by (simp add: rw_core_handle ConfigType_String_0)
  from C4_outbound_channel_left_open [OF this, of "[\<lparr>EventType = DELETE, Key = ''k''\<rparr>]"]
  show ?thesis by simp
qed

text \<open>
  The claim as stated fails on the empty stream already: the raw channel is closed at
  once, the task returns, and the outbound channel is open.
\<close>

theorem C4_outbound_channel_closed_counterexample:
  "MonitorForConfigChange (InitComponentConfig createConfigManager ''rw-core'' ConfigTypeLogLevel) [] =
   Inr \<lparr>chan_sent = [], chan_closed = False\<rparr>"
  by (simp add: rw_core_handle MonitorForConfigChange_def processKVStoreWatchEvents_def
      makeConfigPath_def ConfigType_String_0 make_chan_def)

text \<open>
  C5 (amended). On a reachable store with distinct keys, for a handle of one of the two
  named config types and an attribute name that is not itself a key of the store,
  \<open>RetrieveAll\<close> after \<open>Save attr v\<close> returns a mapping in which \<open>attr\<close>, the stored key
  without the handle's path prefix, has the value \<open>v\<close> with every leading and every
  trailing double quote removed. That value is \<open>v\<close> itself when \<open>v\<close> neither begins nor
  ends with a double quote, so \<open>DEBUG\<close> reads back as \<open>DEBUG\<close>. The store is arbitrary, so
  this covers every position of the saved key among the listed pairs.
\<close>

theorem C5_RetrieveAll_after_Save:
  assumes "ConfigType_String (configType c) = Inr t"
    and "Reachable kv"
    and "distinct (map fst (Data kv))"
    and "attr \<notin> fst ` set (Data kv)"
  shows "\<exists>kv' res. Save c attr v kv = Inr kv' \<and> RetrieveAll c kv' = Inr res \<and>
           map_of res attr = Some (Trim v [CHR 0x22]) \<and>
           (v = [] \<or> (hd v \<noteq> CHR 0x22 \<and> last v \<noteq> CHR 0x22) \<longrightarrow> map_of res attr = Some v)"
proof -
  from RetrieveAll_after_Save [OF assms, of v]
  obtain kv' res where s: "Save c attr v kv = Inr kv'" and r: "RetrieveAll c kv' = Inr res"
    and m: "map_of res attr = Some (Trim v [CHR 0x22])"
    by blast
  have "map_of res attr = Some v" if "v = [] \<or> (hd v \<noteq> CHR 0x22 \<and> last v \<noteq> CHR 0x22)"
    using m Trim_no_quotes [OF that] by simp
  with s r m show ?thesis
    by blast
qed

theorem C5_RetrieveAll_after_Save_witness:
  "\<exists>kv' res.
      Save (InitComponentConfig createConfigManager ''rw-core'' ConfigTypeLogLevel)
        ''default'' ''DEBUG''
        \<lparr>Reachable = True,
         Data = [(''/service/voltha/config/rw-core/loglevel/pkgA'', ''WARN'')]\<rparr> = Inr kv' \<and>
      RetrieveAll (InitComponentConfig createConfigManager ''rw-core'' ConfigTypeLogLevel) kv' =
        Inr res \<and>
      map_of res ''default'' = Some ''DEBUG''"
proof -
  have t: "ConfigType_String
          (configType (InitComponentConfig createConfigManager ''rw-core'' ConfigTypeLogLevel)) =
        Inr ''loglevel''"
    by (simp add: rw_core_handle ConfigType_String_0)
  have r: "Reachable \<lparr>Reachable = True,
         Data = [(''/service/voltha/config/rw-core/loglevel/pkgA'', ''WARN'')]\<rparr>"
    by simp
  have d: "distinct (map fst (Data \<lparr>Reachable = True,
         Data = [(''/service/voltha/config/rw-core/loglevel/pkgA'', ''WARN'')]\<rparr>))"
    by simp
  have n: "''default'' \<notin> fst ` set (Data \<lparr>Reachable = True,
         Data = [(''/service/voltha/config/rw-core/loglevel/pkgA'', ''WARN'')]\<rparr>)"
    by simp
  have q: "''DEBUG'' = [] \<or> (hd ''DEBUG'' \<noteq> CHR 0x22 \<and> last ''DEBUG'' \<noteq> CHR 0x22)"
    by simp
  from C5_RetrieveAll_after_Save [OF t r d n, of "''DEBUG''"] q
  show ?thesis
    by blast
qed

text \<open>
  The claim as stated fails for a value with quotes of its own: \<open>""DEBUG""\<close> is saved as
  it is and reads back as \<open>DEBUG\<close>, with both pairs of quotes removed.
\<close>

theorem C5_quoted_value_not_read_back_counterexample:
  "Save (InitComponentConfig createConfigManager ''rw-core'' ConfigTypeLogLevel) ''default''
     (CHR 0x22 # CHR 0x22 # ''DEBUG'' @ [CHR 0x22, CHR 0x22]) \<lparr>Reachable = True, Data = []\<rparr> =
     Inr \<lparr>Reachable = True,
          Data = [(''/service/voltha/config/rw-core/loglevel/default'',
                   CHR 0x22 # CHR 0x22 # ''DEBUG'' @ [CHR 0x22, CHR 0x22])]\<rparr> \<and>
   RetrieveAll (InitComponentConfig createConfigManager ''rw-core'' ConfigTypeLogLevel)
     \<lparr>Reachable = True,
      Data = [(''/service/voltha/config/rw-core/loglevel/default'',
               CHR 0x22 # CHR 0x22 # ''DEBUG'' @ [CHR 0x22, CHR 0x22])]\<rparr> =
     Inr [(''default'', ''DEBUG'')]"
  by (simp add: rw_core_handle Save_def RetrieveAll_def makeConfigPath_def Backend_Put_def
      Backend_List_def Backend_makePath_def ConfigType_String_0 kvStorePathSeparator_def
      RetrieveAll_step_def TrimPrefix_def Trim_def)

text \<open>
  C6. A raw key without the segment \<open>/<configTypeString>/\<close> should make \<open>RetrieveList\<close>
  return a malformed-key error. The loop indexes the results of the splits unchecked:
  for such a key \<open>SplitAfterN\<close> returns one piece and \<open>pName[1]\<close> is out of range, so
  the call panics and returns nothing. \<open>RetrieveList\<close> lists the keys of every
  component and every config type: with one \<open>kafka\<close> key in the store, listing through a
  \<open>loglevel\<close> handle panics.
\<close>

theorem C6_RetrieveList_panics_on_other_type:
  "RetrieveList (InitComponentConfig createConfigManager ''rw-core'' ConfigTypeLogLevel)
     \<lparr>Reachable = True, Data = [(''/service/voltha/config/rw-core/kafka/retries'', ''3'')]\<rparr> =
   Inl PanicIndexOutOfRange"
  by (simp add: rw_core_handle RetrieveList_def Backend_List_def Backend_makePath_def
      ConfigType_String_0 kvStorePathSeparator_def RetrieveList_entry_def SplitN2_def
      SplitAfterN2_def go_index_def)

text \<open>
  C7. A raw event whose kind is neither \<open>Put\<close> nor \<open>Delete\<close> produces no outbound event,
  and the task goes on: on an event alone the outbound channel is unchanged, and a
  stream with such an event in it is translated exactly as the stream without it, so
  every later event is still processed.
\<close>

theorem C7_invalid_kind_dropped:
  assumes "EventType e \<noteq> PUT" and "EventType e \<noteq> DELETE"
    and "ConfigType_String (configType c) = Inr t"
  shows "processKVStoreWatchEvents c [e] ch = Inr ch \<and>
         processKVStoreWatchEvents c (pre @ e # post) ch =
           processKVStoreWatchEvents c (pre @ post) ch"
proof -
  from assms(1,2) have k: "EventType e = CONNECTIONDOWN \<or> EventType e = UNKNOWN"
    by (rule EventKind_invalid)
  have "watch_loop p (pre @ e # post) ch = watch_loop p (pre @ post) ch" for p
    using k by (rule watch_loop_skip)
  moreover have "watch_loop p [e] ch = Inr ch" for p
    using k by auto
  ultimately show ?thesis
    using assms(3) by (simp add: processKVStoreWatchEvents_def makeConfigPath_ok)
qed

theorem C7_invalid_kind_dropped_witness:
  "processKVStoreWatchEvents
     (InitComponentConfig createConfigManager ''rw-core'' ConfigTypeLogLevel)
     [\<lparr>EventType = PUT, Key = ''/service/voltha/config/rw-core/loglevel/a''\<rparr>, \<lparr>EventType = CONNECTIONDOWN, Key = []\<rparr>,
      \<lparr>EventType = DELETE, Key = ''/service/voltha/config/rw-core/loglevel/a''\<rparr>] make_chan =
   Inr \<lparr>chan_sent = [\<lparr>ChangeType = Put, ConfigAttribute = ''/service/voltha/config/rw-core/loglevel/a''\<rparr>,
                      \<lparr>ChangeType = Delete, ConfigAttribute = ''/service/voltha/config/rw-core/loglevel/a''\<rparr>],
        chan_closed = False\<rparr>"
proof -
  have t: "ConfigType_String
          (configType (InitComponentConfig createConfigManager ''rw-core'' ConfigTypeLogLevel)) =
        Inr ''loglevel''"
    by (simp add: rw_core_handle ConfigType_String_0)
  have k: "EventType \<lparr>EventType = CONNECTIONDOWN, Key = []\<rparr> \<noteq> PUT"
    "EventType \<lparr>EventType = CONNECTIONDOWN, Key = []\<rparr> \<noteq> DELETE"
    by simp_all
  have "processKVStoreWatchEvents
          (InitComponentConfig createConfigManager ''rw-core'' ConfigTypeLogLevel)
          [\<lparr>EventType = PUT, Key = ''/service/voltha/config/rw-core/loglevel/a''\<rparr>, \<lparr>EventType = DELETE, Key = ''/service/voltha/config/rw-core/loglevel/a''\<rparr>] make_chan =
        Inr \<lparr>chan_sent = [\<lparr>ChangeType = Put, ConfigAttribute = ''/service/voltha/config/rw-core/loglevel/a''\<rparr>,
                           \<lparr>ChangeType = Delete, ConfigAttribute = ''/service/voltha/config/rw-core/loglevel/a''\<rparr>],
             chan_closed = False\<rparr>"
    by (simp add: rw_core_handle processKVStoreWatchEvents_def makeConfigPath_def
        ConfigType_String_0 kvStorePathSeparator_def make_chan_def chan_send_def
        TrimPrefix_def Put_def Delete_def)
  with C7_invalid_kind_dropped [OF k t, of make_chan "[\<lparr>EventType = PUT, Key = ''/service/voltha/config/rw-core/loglevel/a''\<rparr>]"
      "[\<lparr>EventType = DELETE, Key = ''/service/voltha/config/rw-core/loglevel/a''\<rparr>]"]
  show ?thesis by simp
qed

text \<open>
  C8. The task sends exactly one \<open>ConfigChangeEvent\<close> for each \<open>Put\<close> or \<open>Delete\<close> event
  of the raw stream and none for any other, in the order of the stream: what it has
  sent when the stream ends is the list of the stream's \<open>Put\<close> and \<open>Delete\<close> events,
  each translated on its own, with change type \<open>Put\<close> for a \<open>Put\<close> and \<open>Delete\<close> for a
  \<open>Delete\<close>. (For an open outbound channel and the two named config types.)
\<close>

theorem C8_one_event_each_in_order:
  assumes "ConfigType_String (configType c) = Inr t" and "\<not> chan_closed ch"
  shows "\<exists>ch'. processKVStoreWatchEvents c evs ch = Inr ch' \<and>
           chan_sent ch' = chan_sent ch @
             map (\<lambda>e. \<lparr>ChangeType = (if EventType e = PUT then Put else Delete),
                       ConfigAttribute =
                         TrimPrefix (Key e)
                           (PathPrefix (backend (cManager c)) @ KvStoreConfigPrefix (cManager c) @
                            ''/'' @ componentLabel c @ ''/'' @ t @ ''/'')\<rparr>)
               (filter (\<lambda>e. EventType e = PUT \<or> EventType e = DELETE) evs)"
proof -
  have "map (\<lambda>e. \<lparr>ChangeType = EventKind_ord (EventType e), ConfigAttribute = TrimPrefix (Key e) p\<rparr>)
          (filter (\<lambda>e. EventType e = PUT \<or> EventType e = DELETE) evs) =
        map (\<lambda>e. \<lparr>ChangeType = (if EventType e = PUT then Put else Delete),
                  ConfigAttribute = TrimPrefix (Key e) p\<rparr>)
          (filter (\<lambda>e. EventType e = PUT \<or> EventType e = DELETE) evs)" for p
    by (rule map_cong [OF refl]) (auto simp: Put_def Delete_def)
  with processKVStoreWatchEvents_open [OF assms, of evs]
  show ?thesis by simp
qed

theorem C8_one_event_each_in_order_witness:
  "\<exists>ch'. processKVStoreWatchEvents
            (InitComponentConfig createConfigManager ''rw-core'' ConfigTypeLogLevel)
            [\<lparr>EventType = PUT, Key = ''/service/voltha/config/rw-core/loglevel/a''\<rparr>, \<lparr>EventType = PUT, Key = ''/service/voltha/config/rw-core/loglevel/a''\<rparr>,
             \<lparr>EventType = UNKNOWN, Key = ''/service/voltha/config/rw-core/loglevel/a''\<rparr>, \<lparr>EventType = DELETE, Key = ''/service/voltha/config/rw-core/loglevel/a''\<rparr>]
            make_chan = Inr ch' \<and>
         chan_sent ch' =
           [\<lparr>ChangeType = Put, ConfigAttribute = ''/service/voltha/config/rw-core/loglevel/a''\<rparr>,
            \<lparr>ChangeType = Put, ConfigAttribute = ''/service/voltha/config/rw-core/loglevel/a''\<rparr>,
            \<lparr>ChangeType = Delete, ConfigAttribute = ''/service/voltha/config/rw-core/loglevel/a''\<rparr>]"
proof -
  have t: "ConfigType_String
          (configType (InitComponentConfig createConfigManager ''rw-core'' ConfigTypeLogLevel)) =
        Inr ''loglevel''"
    by (simp add: rw_core_handle ConfigType_String_0)
  have o: "\<not> chan_closed (make_chan :: ConfigChangeEvent chan)"
    by (simp add: make_chan_def)
  from C8_one_event_each_in_order [OF t o,
      of "[\<lparr>EventType = PUT, Key = ''/service/voltha/config/rw-core/loglevel/a''\<rparr>, \<lparr>EventType = PUT, Key = ''/service/voltha/config/rw-core/loglevel/a''\<rparr>,
           \<lparr>EventType = UNKNOWN, Key = ''/service/voltha/config/rw-core/loglevel/a''\<rparr>, \<lparr>EventType = DELETE, Key = ''/service/voltha/config/rw-core/loglevel/a''\<rparr>]"]
  show ?thesis
    by (simp add: make_chan_def TrimPrefix_def rw_core_handle)
qed

text \<open>
  C9. An argument \<open>component#package\<close> of the \<open>loglevel\<close> commands, with no \<open>#\<close> inside
  the component or the package and a \<open>/\<close> in the package: \<open>processCommandArgs\<close> splits it
  at the \<open>#\<close> and replaces every \<open>/\<close> of the package by \<open>#\<close>; \<open>loglevel set\<close> then
  stores the level under the key \<open>/service/voltha/config/<component>/loglevel/<encoded
  package>\<close> and changes no other key; and \<open>loglevel list\<close> of the component afterwards
  reports a row with the package as it was given, every \<open>#\<close> of the stored name replaced
  by \<open>/\<close>. So \<open>rw-core#pkgA/pkgB\<close> is stored under \<open>.../rw-core/loglevel/pkgA#pkgB\<close> and
  listed as \<open>pkgA/pkgB\<close>. (For a reachable store with distinct keys in which the encoded
  name is not itself a key, and a level that \<open>StringToLogLevel\<close> accepts and that has no
  double quote at either end.)
\<close>

theorem C9_escape_round_trip:
  assumes c: "CHR ''#'' \<notin> set cname" and p: "CHR ''#'' \<notin> set pkg" and s: "CHR ''/'' \<in> set pkg"
    and r: "Reachable kv" and d: "distinct (map fst (Data kv))"
    and n: "ReplaceAll pkg (CHR ''/'') (CHR ''#'') \<notin> fst ` set (Data kv)"
    and ok: "levelOk level"
    and q: "level = [] \<or> (hd level \<noteq> CHR 0x22 \<and> last level \<noteq> CHR 0x22)"
  shows "processCommandArgs (cname @ ''#'' @ pkg) =
           Inr \<lparr>ComponentName = cname, PackageName = ReplaceAll pkg (CHR ''/'') (CHR ''#''),
                Level = []\<rparr> \<and>
         (\<exists>out kv'. SetLogLevelOpts_Execute levelOk level [cname @ ''#'' @ pkg] kv = Inr (out, kv') \<and>
            map_of (Data kv') =
              (map_of (Data kv))
                (''/service/voltha/config/'' @ cname @ ''/loglevel/'' @
                 ReplaceAll pkg (CHR ''/'') (CHR ''#'') \<mapsto> level) \<and>
            (\<exists>rows. ListLogLevelsOpts_Execute levelOk cname kv' = Inr rows \<and>
               \<lparr>ComponentName = cname, PackageName = pkg, Level = level\<rparr> \<in> set rows))"
proof -
  let ?enc = "ReplaceAll pkg (CHR ''/'') (CHR ''#'')"
  let ?h = "InitComponentConfig createConfigManager cname ConfigTypeLogLevel"
  let ?g = "InitComponentConfig createConfigManager defaultComponentName ConfigTypeLogLevel"
  have pca: "processCommandArgs (cname @ ''#'' @ pkg) =
      Inr \<lparr>ComponentName = cname, PackageName = ?enc, Level = []\<rparr>"
    using c p by (rule processCommandArgs_escaped)
  from RetrieveAll_after_Save [OF LogLevel_handle(1) r d n, of createConfigManager cname level]
  obtain kv' res where sv: "Save ?h ?enc level kv = Inr kv'" and r': "Reachable kv'"
    and m: "map_of (Data kv') =
      (map_of (Data kv))(''/service/voltha/config/'' @ cname @ ''/loglevel/'' @ ?enc \<mapsto> level)"
    and ra: "RetrieveAll ?h kv' = Inr res"
    and look: "map_of res ?enc = Some (Trim level [CHR 0x22])"
    by (auto simp: LogLevel_handle createConfigManager_fields)
  have ex: "SetLogLevelOpts_Execute levelOk level [cname @ ''#'' @ pkg] kv =
      Inr ([\<lparr>Output_ComponentName = cname, Status = ''Success'', Error = []\<rparr>], kv')"
    using ok pca sv by (simp add: SetLogLevelOpts_Execute_def)
  have hash: "CHR ''#'' \<in> set ?enc"
    using s by (rule ReplaceAll_has_new)
  then have ne: "?enc \<noteq> []" and nd: "?enc \<noteq> defaultPackageName"
    by (auto simp: defaultPackageName_def)
  from look q have look': "map_of res ?enc = Some level"
    by (simp add: Trim_no_quotes)
  define g where "g = (case listGlobalConfig levelOk ?g kv' of Inl e \<Rightarrow> [] | Inr l \<Rightarrow> l)"
  define m' where "m' = (if g \<noteq> [] then AList.update defaultPackageName g res else res)"
  have "map_of m' ?enc = Some level"
    using look' nd by (simp add: m'_def update_conv')
  then have "(?enc, level) \<in> set m'"
    by (rule map_of_SomeD)
  then have "\<lparr>ComponentName = cname, PackageName = ReplaceAll ?enc (CHR ''#'') (CHR ''/''),
              Level = level\<rparr> \<in> set (ListLogLevels_rows levelOk cname m')"
    using ok ne by (rule ListLogLevels_rows_member)
  then have row: "\<lparr>ComponentName = cname, PackageName = pkg, Level = level\<rparr>
      \<in> set (ListLogLevels_rows levelOk cname m')"
    using p by (simp add: ReplaceAll_decode_encode)
  have "ListLogLevelsOpts_Execute levelOk cname kv' = Inr (ListLogLevels_rows levelOk cname m')"
    using ra by (simp add: ListLogLevelsOpts_Execute_def listComponentNameConfig_def g_def m'_def)
  with row ex m pca show ?thesis
    by blast
qed

theorem C9_escape_round_trip_witness:
  "\<exists>out kv'.
      SetLogLevelOpts_Execute (\<lambda>l. l \<in> set [''INFO'', ''DEBUG'', ''ERROR'', ''WARN'', ''FATAL''])
        ''DEBUG'' [''rw-core#pkgA/pkgB''] \<lparr>Reachable = True, Data = []\<rparr> = Inr (out, kv') \<and>
      map_of (Data kv') ''/service/voltha/config/rw-core/loglevel/pkgA#pkgB'' = Some ''DEBUG'' \<and>
      (\<exists>rows.
         ListLogLevelsOpts_Execute (\<lambda>l. l \<in> set [''INFO'', ''DEBUG'', ''ERROR'', ''WARN'', ''FATAL''])
           ''rw-core'' kv' = Inr rows \<and>
         \<lparr>ComponentName = ''rw-core'', PackageName = ''pkgA/pkgB'', Level = ''DEBUG''\<rparr> \<in> set rows)"
proof -
  let ?ok = "\<lambda>l. l \<in> set [''INFO'', ''DEBUG'', ''ERROR'', ''WARN'', ''FATAL'']"
  let ?kv = "\<lparr>Reachable = True, Data = []\<rparr>"
  have c: "CHR ''#'' \<notin> set ''rw-core''" and p: "CHR ''#'' \<notin> set ''pkgA/pkgB''"
    and s: "CHR ''/'' \<in> set ''pkgA/pkgB''"
    by simp_all
  have r: "Reachable ?kv" and d: "distinct (map fst (Data ?kv))"
    and n: "ReplaceAll ''pkgA/pkgB'' (CHR ''/'') (CHR ''#'') \<notin> fst ` set (Data ?kv)"
    by simp_all
  have ok: "?ok ''DEBUG''"
    by simp
  have q: "''DEBUG'' = [] \<or> (hd ''DEBUG'' \<noteq> CHR 0x22 \<and> last ''DEBUG'' \<noteq> CHR 0x22)"
    by simp
  have e: "ReplaceAll ''pkgA/pkgB'' (CHR ''/'') (CHR ''#'') = ''pkgA#pkgB''"
    by (simp add: ReplaceAll_def)
  from C9_escape_round_trip [OF c p s r d n, of ?ok "''DEBUG''", OF ok q, THEN conjunct2]
  obtain out kv' rows where
    x: "SetLogLevelOpts_Execute ?ok ''DEBUG'' [''rw-core'' @ ''#'' @ ''pkgA/pkgB''] ?kv = Inr (out, kv')"
    and m: "map_of (Data kv') =
       (map_of (Data ?kv))
         (''/service/voltha/config/'' @ ''rw-core'' @ ''/loglevel/'' @
          ReplaceAll ''pkgA/pkgB'' (CHR ''/'') (CHR ''#'') \<mapsto> ''DEBUG'')"
    and l: "ListLogLevelsOpts_Execute ?ok ''rw-core'' kv' = Inr rows"
    and w: "\<lparr>ComponentName = ''rw-core'', PackageName = ''pkgA/pkgB'', Level = ''DEBUG''\<rparr> \<in> set rows"
    by blast
  have "map_of (Data kv') ''/service/voltha/config/rw-core/loglevel/pkgA#pkgB'' = Some ''DEBUG''"
    unfolding m e by simp
  moreover from x have
    "SetLogLevelOpts_Execute ?ok ''DEBUG'' [''rw-core#pkgA/pkgB''] ?kv = Inr (out, kv')"
    by simp
  ultimately show ?thesis
    using l w by blast
qed

text \<open>
  C10. \<open>ConfigType.String\<close> indexes a two-element array by the value: it gives
  \<open>loglevel\<close> for \<open>ConfigTypeLogLevel\<close> and \<open>kafka\<close> for \<open>ConfigTypeKafka\<close>, and for
  every other value of the type the index is out of range and the call panics.
\<close>

theorem C10_String_table:
  "ConfigType_String ConfigTypeLogLevel = Inr ''loglevel'' \<and>
   ConfigType_String ConfigTypeKafka = Inr ''kafka'' \<and>
   (\<forall>c. c \<noteq> ConfigTypeLogLevel \<and> c \<noteq> ConfigTypeKafka \<longrightarrow>
        ConfigType_String c = Inl PanicIndexOutOfRange)"
proof (intro conjI allI impI)
  fix c :: ConfigType
  assume "c \<noteq> ConfigTypeLogLevel \<and> c \<noteq> ConfigTypeKafka"
  then have "c < 0 \<or> 2 \<le> c"
    by (auto simp: ConfigTypeLogLevel_def ConfigTypeKafka_def)
  then show "ConfigType_String c = Inl PanicIndexOutOfRange"
    unfolding ConfigType_String_def by (intro go_index_out_of_range) simp
qed (rule ConfigType_String_named)+

theorem C10_String_table_witness:
  "(2::int) \<noteq> ConfigTypeLogLevel \<and> 2 \<noteq> ConfigTypeKafka \<and>
   ConfigType_String 2 = Inl PanicIndexOutOfRange \<and>
   ConfigType_String (- 1) = Inl PanicIndexOutOfRange"
  using C10_String_table by (simp add: ConfigTypeLogLevel_def ConfigTypeKafka_def)

end
